theory Spec2Isabelle
  imports Main
begin

section \<open>The task tracker command line (task-cli.js)\<close>

text \<open>
  A shallow embedding of \<^verbatim>\<open>src/task-tracker-cli-js/task-cli.js\<close>. One run of the
  script is a function from the command line, the environment of the run and the
  backing file \<^verbatim>\<open>tasks.json\<close> to the file after the run and the messages
  printed on the console.

  Conventions of the model:
  \<^item> a JavaScript string is a \<open>string\<close> whose characters are code units below 256;
  \<^item> a JavaScript number that is stored as an id is an \<open>int\<close> holding the value of a
    finite double; arithmetic on numbers rounds as IEEE doubles do (\<open>round_double\<close>), and
    what \<^verbatim>\<open>parseInt\<close> returns is a \<open>number\<close>, which is also \<open>NaN\<close> or infinite;
  \<^item> \<open>undefined\<close> (a command-line argument that was not given) is \<open>None\<close>;
  \<^item> the text of a file is identified with what \<^verbatim>\<open>JSON.parse\<close> makes of it, so
    \<^verbatim>\<open>JSON.parse(JSON.stringify(v, null, 4))\<close> is \<open>v\<close> by construction;
  \<^item> console output is a list of messages, one constructor per message of the source,
    carrying the values the source interpolates.
\<close>

subsection \<open>Values\<close>

datatype json =
    JNull
  | JBool bool
  | JNum int
  | JStr string
  | JArr "json list"
  | JObj "(string \<times> json) list"

text \<open>The object literal that \<^verbatim>\<open>addTask\<close> builds, with its fields in their order.\<close>

record task =
  task_id :: int
  description :: string
  status :: string
  createdAt :: string
  updatedAt :: string

definition json_of_task :: "task \<Rightarrow> json" where
  "json_of_task t =
     JObj [(''id'', JNum (task_id t)),
           (''description'', JStr (description t)),
           (''status'', JStr (status t)),
           (''createdAt'', JStr (createdAt t)),
           (''updatedAt'', JStr (updatedAt t))]"

definition json_of_tasks :: "task list \<Rightarrow> json" where
  "json_of_tasks tasks = JArr (map json_of_task tasks)"

fun num_of :: "json \<Rightarrow> int option" where
  "num_of (JNum n) = Some n"
| "num_of _ = None"

fun str_of :: "json \<Rightarrow> string option" where
  "str_of (JStr s) = Some s"
| "str_of _ = None"

text \<open>
  The operations read a loaded value as an array of task objects. A value of any other
  shape (not an array, an element that is not an object of exactly these five fields, a
  field of another type) is not a collection of tasks: what the JavaScript does with it
  rests on dynamic coercions and \<^verbatim>\<open>TypeError\<close>s that this development does not
  cover, and an operation that has to read such a value as tasks yields \<open>None\<close>.
\<close>

definition task_of_json :: "json \<Rightarrow> task option" where
  "task_of_json v =
     (case v of
        JObj kvs \<Rightarrow>
          (if map fst kvs = [''id'', ''description'', ''status'', ''createdAt'', ''updatedAt'']
           then (case (num_of (snd (kvs ! 0)), str_of (snd (kvs ! 1)), str_of (snd (kvs ! 2)),
                       str_of (snd (kvs ! 3)), str_of (snd (kvs ! 4))) of
                   (Some n, Some d, Some s, Some c, Some u) \<Rightarrow>
                     Some \<lparr>task_id = n, description = d, status = s,
                           createdAt = c, updatedAt = u\<rparr>
                 | _ \<Rightarrow> None)
           else None)
      | _ \<Rightarrow> None)"

definition tasks_of_json :: "json \<Rightarrow> task list option" where
  "tasks_of_json v = (case v of JArr vs \<Rightarrow> those (map task_of_json vs) | _ \<Rightarrow> None)"

subsection \<open>Numbers\<close>

text \<open>
  The Number values that the script meets: \<open>NaN\<close>, the infinities, and the finite doubles
  whose value is an integer.
\<close>

datatype number = NaN | MinusInfinity | Finite int | PlusInfinity

fun isNaN :: "number \<Rightarrow> bool" where
  "isNaN NaN = True"
| "isNaN n = False"

text \<open>
  A double has 53 significant bits. \<open>excess m\<close> is the number of low bits of the
  magnitude \<open>m\<close> beyond those 53, and \<open>round_double x\<close> is the integer nearest to \<open>x\<close>
  with no more than 53 significant bits, the even one of two equally near: the result
  of an operation on doubles whose exact value is the integer \<open>x\<close>, as long as it is finite.
\<close>

function excess :: "int \<Rightarrow> nat" where
  "excess m = (if m < 2 ^ 53 then 0 else Suc (excess (m div 2)))"
  by pat_completeness auto
termination
  by (relation "measure nat") auto

declare excess.simps [simp del]

definition round_double :: "int \<Rightarrow> int" where
  "round_double x =
     (let m = \<bar>x\<bar>; e = excess m; q = m div 2 ^ e; r = m mod 2 ^ e
      in sgn x * (if 2 ^ e < 2 * r \<or> (2 ^ e = 2 * r \<and> odd q)
                  then (q + 1) * 2 ^ e else q * 2 ^ e))"

text \<open>
  The Number value of a mathematical integer: its nearest double, which is infinite
  from \<open>2^1024 - 2^970\<close> on, where rounding reaches \<open>2^1024\<close>.
\<close>

definition Number_of :: "int \<Rightarrow> number" where
  "Number_of x =
     (let y = round_double x
      in if 2 ^ 1024 \<le> y then PlusInfinity
         else if y \<le> - (2 ^ 1024) then MinusInfinity
         else Finite y)"

subsection \<open>The backing file and the environment of a run\<close>

text \<open>
  The text of an existing file: of length zero, or text that \<^verbatim>\<open>JSON.parse\<close>
  rejects, or a JSON document. \<open>Document v\<close> is a text that \<^verbatim>\<open>JSON.parse\<close> turns into
  the value \<open>v\<close>; the numbers of \<open>v\<close> are the doubles that parsing gave, of which the
  model has those that are integers.
\<close>

datatype contents = Empty | Malformed | Document json

text \<open>
  \<open>Missing\<close>: no file at the path. \<open>File r t\<close>: a file holding \<open>t\<close>, which the
  process can read iff \<open>r\<close>.
\<close>

datatype task_file = Missing | File bool contents

datatype js_error = ENOENT | EACCES | SyntaxError

text \<open>What one run takes from outside: the clock and whether the file can be written.\<close>

record env =
  now :: string
  write_ok :: bool

fun existsSync :: "task_file \<Rightarrow> bool" where
  "existsSync Missing = False"
| "existsSync (File r t) = True"

fun statSync_size_is_0 :: "task_file \<Rightarrow> js_error + bool" where
  "statSync_size_is_0 Missing = Inl ENOENT"
| "statSync_size_is_0 (File r t) = Inr (t = Empty)"

fun readFileSync :: "task_file \<Rightarrow> js_error + contents" where
  "readFileSync Missing = Inl ENOENT"
| "readFileSync (File r t) = (if r then Inr t else Inl EACCES)"

fun JSON_parse :: "contents \<Rightarrow> js_error + json" where
  "JSON_parse (Document v) = Inr v"
| "JSON_parse Malformed = Inl SyntaxError"
| "JSON_parse Empty = Inl SyntaxError"

definition JSON_stringify :: "json \<Rightarrow> contents" where
  "JSON_stringify v = Document v"

text \<open>A refused write leaves the file as it was; a write to a missing file creates it.\<close>

definition writeFileSync :: "contents \<Rightarrow> env \<Rightarrow> task_file \<Rightarrow> js_error + task_file" where
  "writeFileSync data e f =
     (if write_ok e
      then Inr (case f of Missing \<Rightarrow> File True data | File r t \<Rightarrow> File r data)
      else Inl EACCES)"

subsection \<open>Console messages\<close>

datatype message =
    CorruptFile
  | SaveFailed
  | DescriptionRequired
  | Added int
  | NoTasks
  | InvalidFilter string
  | NoTasksWithStatus string
  | Listing "task list"
  | UpdateUsage
  | DeleteUsage
  | NotFound number
  | Updated number
  | Deleted number
  | InDevelopment string
  | UnknownCommand string
  | Help

text \<open>
  In the words of the specification, \<open>DescriptionRequired\<close>, \<open>InvalidFilter\<close>,
  \<open>UpdateUsage\<close> and \<open>DeleteUsage\<close> are the \<^verbatim>\<open>InvalidInput\<close> failures, \<open>NotFound\<close>
  is the \<^verbatim>\<open>NotFound\<close> failure, \<open>CorruptFile\<close> is the corrupt-data report and
  \<open>SaveFailed\<close> the write-failure report. \<open>Listing ts\<close> is the header, one line for
  each task of \<open>ts\<close> in order, and the footer.
\<close>

subsection \<open>JavaScript built-ins the script calls\<close>

text \<open>\<^verbatim>\<open>!x\<close> on an argument that is a string or \<open>undefined\<close>.\<close>

definition falsy :: "string option \<Rightarrow> bool" where
  "falsy a = (case a of None \<Rightarrow> True | Some s \<Rightarrow> s = [])"

text \<open>\<^verbatim>\<open>xs[i]\<close>: \<open>undefined\<close> out of range.\<close>

definition at :: "'a list \<Rightarrow> nat \<Rightarrow> 'a option" where
  "at xs i = (if i < length xs then Some (xs ! i) else None)"

definition ToString :: "string option \<Rightarrow> string" where
  "ToString a = (case a of None \<Rightarrow> ''undefined'' | Some s \<Rightarrow> s)"

text \<open>\<^verbatim>\<open>String.prototype.toLowerCase\<close> on code units below 256.\<close>

definition lower_char :: "char \<Rightarrow> char" where
  "lower_char c =
     (let n = (of_char c :: nat)
      in if (65 \<le> n \<and> n \<le> 90) \<or> (192 \<le> n \<and> n \<le> 222 \<and> n \<noteq> 215)
         then char_of (n + 32) else c)"

definition toLowerCase :: "string \<Rightarrow> string" where
  "toLowerCase s = map lower_char s"

text \<open>
  \<^verbatim>\<open>parseInt(string)\<close> with no radix: leading white space is skipped, then an
  optional sign, then an optional \<^verbatim>\<open>0x\<close> or \<^verbatim>\<open>0X\<close> that selects radix 16, then
  the longest run of digits of the radix; \<open>NaN\<close> when that run is empty. What follows
  the digits is ignored. The result is the Number value of the signed integer that the
  digits denote: a numeral of more than 53 significant bits is rounded, and a very long
  one gives an infinity.
\<close>

definition isWhiteSpace :: "char \<Rightarrow> bool" where
  "isWhiteSpace c = ((of_char c :: nat) \<in> {9, 10, 11, 12, 13, 32, 160})"

definition digit_value :: "char \<Rightarrow> nat option" where
  "digit_value c =
     (let n = (of_char c :: nat)
      in if 48 \<le> n \<and> n \<le> 57 then Some (n - 48)
         else if 97 \<le> n \<and> n \<le> 102 then Some (n - 87)
         else if 65 \<le> n \<and> n \<le> 70 then Some (n - 55)
         else None)"

definition is_digit :: "nat \<Rightarrow> char \<Rightarrow> bool" where
  "is_digit R c = (case digit_value c of None \<Rightarrow> False | Some d \<Rightarrow> d < R)"

definition digits_value :: "nat \<Rightarrow> string \<Rightarrow> int" where
  "digits_value R Z = foldl (\<lambda>acc c. acc * int R + int (the (digit_value c))) 0 Z"

definition parseInt :: "string \<Rightarrow> number" where
  "parseInt inputString =
     (let S = dropWhile isWhiteSpace inputString;
          sign = (if take 1 S = ''-'' then - 1 else 1 :: int);
          S1 = (if take 1 S = ''+'' \<or> take 1 S = ''-'' then drop 1 S else S);
          hex = (take 2 S1 = ''0x'' \<or> take 2 S1 = ''0X'');
          R = (if hex then 16 else 10);
          S2 = (if hex then drop 2 S1 else S1);
          Z = takeWhile (is_digit R) S2
      in if Z = [] then NaN else Number_of (sign * digits_value R Z))"

text \<open>\<^verbatim>\<open>Array.prototype.findIndex\<close>: the first index that satisfies, or \<open>-1\<close>.\<close>

fun findIndex :: "('a \<Rightarrow> bool) \<Rightarrow> 'a list \<Rightarrow> int" where
  "findIndex p [] = - 1"
| "findIndex p (x # xs) =
     (if p x then 0 else (let i = findIndex p xs in if i = - 1 then - 1 else i + 1))"

subsection \<open>The store\<close>

definition loadTasks_try :: "task_file \<Rightarrow> js_error + json" where
  "loadTasks_try f =
     (if \<not> existsSync f then Inr (JArr [])
      else (case statSync_size_is_0 f of
              Inl err \<Rightarrow> Inl err
            | Inr zero \<Rightarrow>
                if zero then Inr (JArr [])
                else (case readFileSync f of
                        Inl err \<Rightarrow> Inl err
                      | Inr data \<Rightarrow> JSON_parse data)))"

definition loadTasks :: "task_file \<Rightarrow> json \<times> message list" where
  "loadTasks f =
     (case loadTasks_try f of
        Inr v \<Rightarrow> (v, [])
      | Inl err \<Rightarrow> if err = ENOENT then (JArr [], []) else (JArr [], [CorruptFile]))"

definition saveTasks :: "task list \<Rightarrow> env \<Rightarrow> task_file \<Rightarrow> task_file \<times> message list" where
  "saveTasks tasks e f =
     (case writeFileSync (JSON_stringify (json_of_tasks tasks)) e f of
        Inr f' \<Rightarrow> (f', [])
      | Inl err \<Rightarrow> (f, [SaveFailed]))"

text \<open>
  \<open>maxId\<close> is the constant of that name in \<^verbatim>\<open>getNextId\<close>; \<^verbatim>\<open>maxId + 1\<close> is an
  addition of doubles.
\<close>

definition maxId :: "task list \<Rightarrow> int" where
  "maxId tasks = foldl (\<lambda>mx t. max mx (task_id t)) 0 tasks"

definition getNextId :: "task list \<Rightarrow> int" where
  "getNextId tasks =
     (if length tasks = 0 then 1
      else round_double (maxId tasks + 1))"

subsection \<open>The commands\<close>

definition addTask :: "string option \<Rightarrow> env \<Rightarrow> task_file \<Rightarrow> (task_file \<times> message list) option" where
  "addTask descr e f =
     (if falsy descr then Some (f, [DescriptionRequired])
      else (case loadTasks f of (v, out) \<Rightarrow>
        (case tasks_of_json v of
           None \<Rightarrow> None
         | Some tasks \<Rightarrow>
             (let newId = getNextId tasks;
                  newTask = \<lparr>task_id = newId, description = the descr, status = ''todo'',
                             createdAt = now e, updatedAt = now e\<rparr>
              in (case saveTasks (tasks @ [newTask]) e f of
                    (f', out') \<Rightarrow> Some (f', out @ out' @ [Added newId]))))))"

definition validStatuses :: "string list" where
  "validStatuses = [''todo'', ''in-progress'', ''done'']"

definition listTasks :: "string option \<Rightarrow> task_file \<Rightarrow> (task_file \<times> message list) option" where
  "listTasks statusFilter f =
     (case loadTasks f of (v, out) \<Rightarrow>
        (case tasks_of_json v of
           None \<Rightarrow> None
         | Some tasks \<Rightarrow>
             if length tasks = 0 then Some (f, out @ [NoTasks])
             else
               (let flt = toLowerCase (if falsy statusFilter then ''all'' else the statusFilter)
                in if flt \<noteq> ''all''
                   then if flt \<notin> set validStatuses
                        then Some (f, out @ [InvalidFilter flt])
                        else (let tasksToDisplay = filter (\<lambda>t. status t = flt) tasks
                              in if length tasksToDisplay = 0
                                 then Some (f, out @ [NoTasksWithStatus flt])
                                 else Some (f, out @ [Listing tasksToDisplay]))
                   else Some (f, out @ [Listing tasks]))))"

definition updateTask ::
  "string option \<Rightarrow> string option \<Rightarrow> env \<Rightarrow> task_file \<Rightarrow> (task_file \<times> message list) option" where
  "updateTask ident newDescription e f =
     (case loadTasks f of (v, out) \<Rightarrow>
        (let taskId = parseInt (ToString ident)
         in if isNaN taskId \<or> falsy newDescription then Some (f, out @ [UpdateUsage])
            else
               (case tasks_of_json v of
                  None \<Rightarrow> None
                | Some tasks \<Rightarrow>
                    (let taskIndex = findIndex (\<lambda>t. Finite (task_id t) = taskId) tasks
                     in if taskIndex = - 1 then Some (f, out @ [NotFound taskId])
                        else
                          (let i = nat taskIndex;
                               t' = (tasks ! i)\<lparr>description := the newDescription,
                                                updatedAt := now e\<rparr>
                           in (case saveTasks (tasks[i := t']) e f of
                                 (f', out') \<Rightarrow> Some (f', out @ out' @ [Updated taskId])))))))"

definition deleteTask :: "string option \<Rightarrow> env \<Rightarrow> task_file \<Rightarrow> (task_file \<times> message list) option" where
  "deleteTask ident e f =
     (case loadTasks f of (v, out) \<Rightarrow>
        (let taskId = parseInt (ToString ident)
         in if isNaN taskId then Some (f, out @ [DeleteUsage])
            else
             (case tasks_of_json v of
                None \<Rightarrow> None
              | Some tasks \<Rightarrow>
                  (let initialLength = length tasks;
                       updatedTasks = filter (\<lambda>t. Finite (task_id t) \<noteq> taskId) tasks
                   in if length updatedTasks = initialLength
                      then Some (f, out @ [NotFound taskId])
                      else (case saveTasks updatedTasks e f of
                              (f', out') \<Rightarrow> Some (f', out @ out' @ [Deleted taskId]))))))"

definition showHelp :: "message list" where
  "showHelp = [Help]"

text \<open>\<open>argv\<close> is \<^verbatim>\<open>process.argv\<close>: the interpreter, the script, the command, its arguments.\<close>

definition main :: "string list \<Rightarrow> env \<Rightarrow> task_file \<Rightarrow> (task_file \<times> message list) option" where
  "main argv e f =
     (let COMMAND = at argv 2; ARGS = drop 3 argv
      in if falsy COMMAND then Some (f, showHelp)
         else
           (let c = the COMMAND
            in if c = ''add'' then addTask (at ARGS 0) e f
               else if c = ''list'' then listTasks (at ARGS 0) f
               else if c = ''update'' then updateTask (at ARGS 0) (at ARGS 1) e f
               else if c = ''delete'' then deleteTask (at ARGS 0) e f
               else if c = ''mark-in-progress'' \<or> c = ''mark-done''
                    then Some (f, [InDevelopment c])
               else Some (f, [UnknownCommand c] @ showHelp)))"

text \<open>Successive runs of the script, each on the file the previous one left.\<close>

fun runs :: "(string list \<times> env) list \<Rightarrow> task_file \<Rightarrow> (task_file \<times> message list) option" where
  "runs [] f = Some (f, [])"
| "runs ((argv, e) # rest) f =
     (case main argv e f of
        None \<Rightarrow> None
      | Some (f', out) \<Rightarrow>
          (case runs rest f' of
             None \<Rightarrow> None
           | Some (f'', out') \<Rightarrow> Some (f'', out @ out')))"

text \<open>The tasks a run displayed: those of its listings, in order.\<close>

fun shown :: "message list \<Rightarrow> task list" where
  "shown [] = []"
| "shown (Listing ts # ms) = ts @ shown ms"
| "shown (m # ms) = shown ms"

text \<open>
  Whether a console trace assigns an id (\<open>Added n\<close>) that an earlier run of the trace
  had deleted (\<open>Deleted n\<close>); \<open>dels\<close> are the ids deleted so far.
\<close>

fun reassigns :: "number list \<Rightarrow> message list \<Rightarrow> bool" where
  "reassigns dels [] = False"
| "reassigns dels (Added n # ms) = (Finite n \<in> set dels \<or> reassigns dels ms)"
| "reassigns dels (Deleted n # ms) = reassigns (n # dels) ms"
| "reassigns dels (m # ms) = reassigns dels ms"

section \<open>Basic facts\<close>

text \<open>
  Below, a stored collection \<open>tasks\<close> is a file \<open>f\<close> with
  \<open>loadTasks f = (json_of_tasks tasks, out)\<close>: loading returns the array of \<open>tasks\<close>,
  after printing \<open>out\<close> (nothing, or the report of a corrupt file when \<open>tasks\<close> is empty).
\<close>

subsection \<open>Decoding, loading, lower case\<close>

lemma task_of_json_of_task: "task_of_json (json_of_task t) = Some t"
  by (simp add: task_of_json_def json_of_task_def)

lemma those_map_task: "those (map (task_of_json \<circ> json_of_task) ts) = Some ts"
  by (induction ts) (simp_all add: task_of_json_of_task)

lemma tasks_of_json_of_tasks: "tasks_of_json (json_of_tasks ts) = Some ts"
  by (simp add: tasks_of_json_def json_of_tasks_def those_map_task)

lemma loadTasks_Missing: "loadTasks Missing = (JArr [], [])"
  by (simp add: loadTasks_def loadTasks_try_def)

lemma loadTasks_Document: "loadTasks (File True (Document v)) = (v, [])"
  by (simp add: loadTasks_def loadTasks_try_def)

lemma lower_char_idem: "lower_char (lower_char c) = lower_char c"
  by (auto simp add: lower_char_def Let_def)

lemma toLowerCase_idem: "toLowerCase (toLowerCase s) = toLowerCase s"
  by (simp add: toLowerCase_def lower_char_idem)

lemma toLowerCase_Nil: "toLowerCase s = [] \<longleftrightarrow> s = []"
  by (simp add: toLowerCase_def)

lemma toLowerCase_all: "toLowerCase ''all'' = ''all''"
  by code_simp

lemma valid_lower: "s \<in> {''all'', ''todo'', ''in-progress'', ''done''} \<Longrightarrow> toLowerCase s = s"
  by (elim insertE emptyE; hypsubst; code_simp)

lemma shown_append: "shown (xs @ ys) = shown xs @ shown ys"
  by (induction xs rule: shown.induct) simp_all

lemma shown_loadTasks: "shown (snd (loadTasks f)) = []"
  by (simp add: loadTasks_def split: sum.split)

subsection \<open>Rounding\<close>

lemma excess_small: "m < 2 ^ 53 \<Longrightarrow> excess m = 0"
  by (subst excess.simps) simp

lemma round_double_small: "\<bar>x\<bar> \<le> 2 ^ 53 \<Longrightarrow> round_double x = x"
proof (cases "\<bar>x\<bar> < 2 ^ 53")
  case True
  then show ?thesis by (simp add: round_double_def excess_small mult_sgn_abs)
next
  case False
  assume "\<bar>x\<bar> \<le> 2 ^ 53"
  with False have m: "\<bar>x\<bar> = 2 ^ 53" by simp
  have "excess (2 ^ 53) = 1"
    by (subst excess.simps) (simp add: excess_small)
  with m show ?thesis
    using mult_sgn_abs [of x] by (simp add: round_double_def)
qed

text \<open>Past 53 bits the odd integers are lost, to the even neighbour of even quotient.\<close>

lemma round_double_past_53:
  "round_double (2 ^ 53 + 1) = 2 ^ 53 \<and> round_double (2 ^ 53 + 2) = 2 ^ 53 + 2 \<and>
   round_double (2 ^ 53 + 3) = 2 ^ 53 + 4"
  by code_simp

lemma isNaN_iff: "isNaN n \<longleftrightarrow> n = NaN"
  by (cases n) simp_all

lemma parseInt_examples:
  "parseInt ''12'' = Finite 12 \<and> parseInt '' -7up'' = Finite (- 7) \<and>
   parseInt ''1.5'' = Finite 1 \<and> parseInt ''0x1F'' = Finite 31 \<and>
   parseInt ''0xg'' = NaN \<and> parseInt ''abc'' = NaN \<and> parseInt [] = NaN \<and>
   parseInt (ToString None) = NaN \<and>
   parseInt ''9007199254740993'' = Finite 9007199254740992"
  by code_simp

subsection \<open>Searching and numbering\<close>

lemma findIndex_ge: "- 1 \<le> findIndex p xs"
  by (induction xs) (simp_all add: Let_def)

lemma findIndex_none: "findIndex p xs = - 1 \<longleftrightarrow> (\<forall>x\<in>set xs. \<not> p x)"
proof (induction xs)
  case Nil
  then show ?case by simp
next
  case (Cons x xs)
  then show ?case using findIndex_ge [of p xs] by (auto simp add: Let_def)
qed

lemma findIndex_first:
  "(\<forall>y\<in>set pre. \<not> p y) \<Longrightarrow> p x \<Longrightarrow> findIndex p (pre @ x # post) = int (length pre)"
  by (induction pre) (simp_all add: Let_def)

lemma first_match_split:
  "\<exists>x\<in>set xs. p x \<Longrightarrow> \<exists>pre x post. xs = pre @ x # post \<and> p x \<and> (\<forall>y\<in>set pre. \<not> p y)"
  by (metis split_list_first_prop)

lemma foldl_max_ids:
  "foldl (\<lambda>mx t. max mx (task_id t)) a tasks = Max (insert a (task_id ` set tasks))"
proof (induction tasks arbitrary: a)
  case Nil
  then show ?case by simp
next
  case (Cons t tasks)
  have "Max (insert (max a (task_id t)) (task_id ` set tasks))
      = Max (insert a (insert (task_id t) (task_id ` set tasks)))"
    by (cases "tasks = []") (simp_all add: max.assoc)
  with Cons show ?case by simp
qed

lemma maxId_Max: "maxId tasks = Max (insert 0 (task_id ` set tasks))"
  by (simp add: maxId_def foldl_max_ids)

lemma maxId_nonneg: "0 \<le> maxId tasks"
  unfolding maxId_Max by (intro Max_ge) simp_all

lemma maxId_ge: "t \<in> set tasks \<Longrightarrow> task_id t \<le> maxId tasks"
  unfolding maxId_Max by (intro Max_ge) simp_all

lemma maxId_le: "0 \<le> b \<Longrightarrow> \<forall>t\<in>set tasks. task_id t \<le> b \<Longrightarrow> maxId tasks \<le> b"
  unfolding maxId_Max by (subst Max_le_iff) auto



text \<open>Below \<open>2^53\<close> the next id is the greatest id plus one; at \<open>2^53\<close> it is \<open>2^53\<close> again.\<close>

lemma getNextId_exact: "maxId tasks < 2 ^ 53 \<Longrightarrow> getNextId tasks = maxId tasks + 1"
proof (cases "tasks = []")
  case True
  then show ?thesis by (simp add: getNextId_def maxId_def)
next
  case False
  assume "maxId tasks < 2 ^ 53"
  with maxId_nonneg [of tasks] have "\<bar>maxId tasks + 1\<bar> \<le> 2 ^ 53" by simp
  with False show ?thesis by (simp add: getNextId_def round_double_small)
qed

lemma getNextId_greater:
  "maxId tasks < 2 ^ 53 \<Longrightarrow> t \<in> set tasks \<Longrightarrow> task_id t < getNextId tasks"
  using maxId_ge [of t tasks] by (simp add: getNextId_exact)

lemma getNextId_at_2_53: "task_id t = 2 ^ 53 \<Longrightarrow> getNextId [t] = 2 ^ 53"
  using round_double_past_53 by (simp add: getNextId_def maxId_def)

subsection \<open>Each command on a stored collection\<close>

lemma saveTasks_eq:
  "saveTasks tasks e f =
     (if write_ok e
      then (case f of Missing \<Rightarrow> File True (Document (json_of_tasks tasks))
                    | File r t \<Rightarrow> File r (Document (json_of_tasks tasks)), [])
      else (f, [SaveFailed]))"
  by (simp add: saveTasks_def writeFileSync_def JSON_stringify_def)

lemma addTask_stored:
  assumes "loadTasks f = (json_of_tasks tasks, out)" and "d \<noteq> []"
  shows "addTask (Some d) e f =
           Some (fst (saveTasks (tasks @ [\<lparr>task_id = getNextId tasks, description = d,
                        status = ''todo'', createdAt = now e, updatedAt = now e\<rparr>]) e f),
                 out @ snd (saveTasks (tasks @ [\<lparr>task_id = getNextId tasks, description = d,
                        status = ''todo'', createdAt = now e, updatedAt = now e\<rparr>]) e f)
                 @ [Added (getNextId tasks)])"
  using assms by (simp add: addTask_def falsy_def tasks_of_json_of_tasks Let_def split: prod.split)

lemma listTasks_stored:
  assumes "loadTasks f = (json_of_tasks tasks, out)"
  shows "listTasks flt f =
     Some (f, out @
       (let k = toLowerCase (if falsy flt then ''all'' else the flt)
        in if tasks = [] then [NoTasks]
           else if k = ''all'' then [Listing tasks]
           else if k \<notin> set validStatuses then [InvalidFilter k]
           else if filter (\<lambda>t. status t = k) tasks = [] then [NoTasksWithStatus k]
           else [Listing (filter (\<lambda>t. status t = k) tasks)]))"
  using assms
  by (simp add: listTasks_def tasks_of_json_of_tasks Let_def)

lemma updateTask_invalid:
  assumes "parseInt (ToString ident) = NaN \<or> falsy descr"
  shows "updateTask ident descr e f = Some (f, snd (loadTasks f) @ [UpdateUsage])"
  using assms by (auto simp add: updateTask_def Let_def split: prod.split)

lemma updateTask_missing:
  assumes "loadTasks f = (json_of_tasks tasks, out)"
      and "parseInt (ToString ident) = taskId" and "taskId \<noteq> NaN" and "\<not> falsy descr"
      and "taskId \<notin> Finite ` task_id ` set tasks"
  shows "updateTask ident descr e f = Some (f, out @ [NotFound taskId])"
proof -
  from assms(5) have "findIndex (\<lambda>t. Finite (task_id t) = taskId) tasks = - 1"
    by (auto simp add: findIndex_none)
  with assms(1-4) show ?thesis
    by (simp add: updateTask_def tasks_of_json_of_tasks isNaN_iff)
qed

lemma updateTask_found:
  assumes "loadTasks f = (json_of_tasks (pre @ t # post), out)"
      and "parseInt (ToString ident) = Finite n" and "d \<noteq> []"
      and "task_id t = n" and "n \<notin> task_id ` set pre"
  shows "updateTask ident (Some d) e f =
           Some (fst (saveTasks (pre @ t\<lparr>description := d, updatedAt := now e\<rparr> # post) e f),
                 out @ snd (saveTasks (pre @ t\<lparr>description := d, updatedAt := now e\<rparr> # post) e f)
                 @ [Updated (Finite n)])"
proof -
  from assms(4,5)
  have "findIndex (\<lambda>t. Finite (task_id t) = Finite n) (pre @ t # post) = int (length pre)"
    by (intro findIndex_first) (auto simp add: image_iff)
  with assms(1-3) show ?thesis
    by (simp add: updateTask_def tasks_of_json_of_tasks falsy_def Let_def split: prod.split)
qed

lemma deleteTask_invalid:
  assumes "parseInt (ToString ident) = NaN"
  shows "deleteTask ident e f = Some (f, snd (loadTasks f) @ [DeleteUsage])"
  using assms by (auto simp add: deleteTask_def Let_def split: prod.split)

lemma filter_length_same: "length (filter p xs) = length xs \<longleftrightarrow> (\<forall>x\<in>set xs. p x)"
  by (metis filter_True length_filter_le filter_id_conv length_filter_less not_less_iff_gr_or_eq)

lemma deleteTask_missing:
  assumes "loadTasks f = (json_of_tasks tasks, out)"
      and "parseInt (ToString ident) = taskId" and "taskId \<noteq> NaN"
      and "taskId \<notin> Finite ` task_id ` set tasks"
  shows "deleteTask ident e f = Some (f, out @ [NotFound taskId])"
proof -
  from assms(4)
  have "length (filter (\<lambda>t. Finite (task_id t) \<noteq> taskId) tasks) = length tasks"
    by (auto simp add: filter_length_same)
  with assms(1-3) show ?thesis
    by (simp add: deleteTask_def tasks_of_json_of_tasks Let_def isNaN_iff)
qed

lemma deleteTask_found:
  assumes "loadTasks f = (json_of_tasks tasks, out)"
      and "parseInt (ToString ident) = Finite n"
      and "n \<in> task_id ` set tasks"
  shows "deleteTask ident e f =
           Some (fst (saveTasks (filter (\<lambda>t. task_id t \<noteq> n) tasks) e f),
                 out @ snd (saveTasks (filter (\<lambda>t. task_id t \<noteq> n) tasks) e f)
                 @ [Deleted (Finite n)])"
proof -
  from assms(3) have "length (filter (\<lambda>t. task_id t \<noteq> n) tasks) \<noteq> length tasks"
    by (auto simp add: filter_length_same)
  with assms(1,2) show ?thesis
    by (simp add: deleteTask_def tasks_of_json_of_tasks Let_def split: prod.split)
qed

lemma filter_out_unique:
  assumes "distinct (map task_id (pre @ t # post))"
  shows "filter (\<lambda>u. task_id u \<noteq> task_id t) (pre @ t # post) = pre @ post"
proof -
  from assms have "filter (\<lambda>u. task_id u \<noteq> task_id t) pre = pre"
    and "filter (\<lambda>u. task_id u \<noteq> task_id t) post = post"
    by (auto simp add: filter_id_conv image_iff)
  then show ?thesis by simp
qed

subsection \<open>Distinct ids are kept by every run\<close>

text \<open>
  The invariant of a run: the stored ids are distinct and at most \<open>b\<close>, for a bound
  \<open>b\<close> below \<open>2^53\<close>; a run raises the bound by one at most.
\<close>

lemma load_after_save:
  assumes "loadTasks f = (json_of_tasks tasks, out)"
  shows "\<exists>ts' out'. loadTasks (fst (saveTasks ts e f)) = (json_of_tasks ts', out') \<and>
           (ts' = ts \<or> ts' = [] \<or> ts' = tasks)"
proof (cases "write_ok e")
  case False
  with assms show ?thesis by (auto simp add: saveTasks_eq)
next
  case True
  show ?thesis
  proof (cases f)
    case Missing
    with True show ?thesis by (auto simp add: saveTasks_eq loadTasks_Document)
  next
    case (File r c)
    with True show ?thesis
      by (cases r) (auto simp add: saveTasks_eq loadTasks_Document loadTasks_def loadTasks_try_def
          json_of_tasks_def)
  qed
qed

lemma save_kept:
  assumes "loadTasks f = (json_of_tasks tasks, out)"
      and "distinct (map task_id tasks)" and "\<forall>t\<in>set tasks. task_id t \<le> b"
      and "distinct (map task_id ts)" and "\<forall>t\<in>set ts. task_id t \<le> b"
  shows "\<exists>ts' out'. loadTasks (fst (saveTasks ts e f)) = (json_of_tasks ts', out') \<and>
           distinct (map task_id ts') \<and> (\<forall>t\<in>set ts'. task_id t \<le> b)"
  using load_after_save [OF assms(1), of ts e] assms(2-5) by auto

lemma addTask_kept:
  assumes "loadTasks f = (json_of_tasks tasks, out)"
      and "distinct (map task_id tasks)" and "\<forall>t\<in>set tasks. task_id t \<le> b"
      and "0 \<le> b" and "b < 2 ^ 53"
  shows "\<exists>f' msgs ts' out'. addTask descr e f = Some (f', msgs) \<and>
           loadTasks f' = (json_of_tasks ts', out') \<and> distinct (map task_id ts') \<and>
           (\<forall>t\<in>set ts'. task_id t \<le> b + 1)"
proof (cases "falsy descr")
  case True
  with assms(1-3) show ?thesis by (force simp add: addTask_def)
next
  case False
  then obtain d where d: "descr = Some d" "d \<noteq> []"
    by (cases descr) (auto simp add: falsy_def)
  let ?new = "\<lparr>task_id = getNextId tasks, description = d, status = ''todo'',
                createdAt = now e, updatedAt = now e\<rparr>"
  from maxId_le [OF assms(4,3)] assms(5) have m: "maxId tasks < 2 ^ 53" "maxId tasks \<le> b"
    by simp_all
  have "getNextId tasks \<notin> task_id ` set tasks"
    using getNextId_greater [OF m(1)] by force
  with assms(2) have 1: "distinct (map task_id (tasks @ [?new]))" by simp
  from m assms(3) have 2: "\<forall>t\<in>set (tasks @ [?new]). task_id t \<le> b + 1"
    by (auto simp add: getNextId_exact)
  from assms(3) have 3: "\<forall>t\<in>set tasks. task_id t \<le> b + 1" by auto
  from save_kept [OF assms(1,2) 3 1 2, of e] addTask_stored [OF assms(1) d(2), of e] d(1)
  show ?thesis by auto
qed

lemma listTasks_kept:
  assumes "loadTasks f = (json_of_tasks tasks, out)"
      and "distinct (map task_id tasks)" and "\<forall>t\<in>set tasks. task_id t \<le> b"
  shows "\<exists>f' msgs ts' out'. listTasks flt f = Some (f', msgs) \<and>
           loadTasks f' = (json_of_tasks ts', out') \<and> distinct (map task_id ts') \<and>
           (\<forall>t\<in>set ts'. task_id t \<le> b + 1)"
proof -
  from assms(3) have "\<forall>t\<in>set tasks. task_id t \<le> b + 1" by auto
  with assms(1,2) listTasks_stored [OF assms(1), of flt] show ?thesis by blast
qed

lemma updateTask_kept:
  assumes "loadTasks f = (json_of_tasks tasks, out)"
      and "distinct (map task_id tasks)" and "\<forall>t\<in>set tasks. task_id t \<le> b"
  shows "\<exists>f' msgs ts' out'. updateTask ident descr e f = Some (f', msgs) \<and>
           loadTasks f' = (json_of_tasks ts', out') \<and> distinct (map task_id ts') \<and>
           (\<forall>t\<in>set ts'. task_id t \<le> b + 1)"
proof -
  from assms(3) have b: "\<forall>t\<in>set tasks. task_id t \<le> b + 1" by auto
  show ?thesis
  proof (cases "parseInt (ToString ident) = NaN \<or> falsy descr")
    case True
    from updateTask_invalid [OF this, of e f] assms(1,2) b show ?thesis by blast
  next
    case False
    then obtain d where nn: "parseInt (ToString ident) \<noteq> NaN" and nf: "\<not> falsy descr"
      and d: "descr = Some d" "d \<noteq> []"
      by (cases descr) (auto simp add: falsy_def)
    show ?thesis
    proof (cases "parseInt (ToString ident) \<in> Finite ` task_id ` set tasks")
      case False
      from updateTask_missing [OF assms(1) refl nn nf this, of e] assms(1,2) b
      show ?thesis by blast
    next
      case True
      then obtain n where n: "parseInt (ToString ident) = Finite n" "n \<in> task_id ` set tasks"
        by auto
      then have "\<exists>t\<in>set tasks. task_id t = n" by auto
      then obtain pre t post where s: "tasks = pre @ t # post" "task_id t = n"
        "\<forall>y\<in>set pre. task_id y \<noteq> n"
        using first_match_split [of tasks "\<lambda>t. task_id t = n"] by blast
      from s(3) have pre: "n \<notin> task_id ` set pre" by auto
      let ?ts = "pre @ t\<lparr>description := d, updatedAt := now e\<rparr> # post"
      from assms(2) s(1) have 1: "distinct (map task_id ?ts)" by simp
      from b s(1) have 2: "\<forall>t\<in>set ?ts. task_id t \<le> b + 1" by auto
      from save_kept [OF assms(1,2) b 1 2, of e] obtain ts' out' where
        "loadTasks (fst (saveTasks ?ts e f)) = (json_of_tasks ts', out')"
        "distinct (map task_id ts')" "\<forall>t\<in>set ts'. task_id t \<le> b + 1"
        by blast
      moreover from assms(1) s(1) have "loadTasks f = (json_of_tasks (pre @ t # post), out)"
        by simp
      from updateTask_found [OF this n(1) d(2) s(2) pre, of e] d(1)
      have "updateTask ident descr e f =
              Some (fst (saveTasks ?ts e f), out @ snd (saveTasks ?ts e f) @ [Updated (Finite n)])"
        by simp
      ultimately show ?thesis by blast
    qed
  qed
qed

lemma deleteTask_kept:
  assumes "loadTasks f = (json_of_tasks tasks, out)"
      and "distinct (map task_id tasks)" and "\<forall>t\<in>set tasks. task_id t \<le> b"
  shows "\<exists>f' msgs ts' out'. deleteTask ident e f = Some (f', msgs) \<and>
           loadTasks f' = (json_of_tasks ts', out') \<and> distinct (map task_id ts') \<and>
           (\<forall>t\<in>set ts'. task_id t \<le> b + 1)"
proof -
  from assms(3) have b: "\<forall>t\<in>set tasks. task_id t \<le> b + 1" by auto
  show ?thesis
  proof (cases "parseInt (ToString ident) = NaN")
    case True
    from deleteTask_invalid [OF this, of e f] assms(1,2) b show ?thesis by blast
  next
    case nn: False
    show ?thesis
    proof (cases "parseInt (ToString ident) \<in> Finite ` task_id ` set tasks")
      case False
      from deleteTask_missing [OF assms(1) refl nn this, of e] assms(1,2) b
      show ?thesis by blast
    next
      case True
      then obtain n where n: "parseInt (ToString ident) = Finite n" "n \<in> task_id ` set tasks"
        by auto
      let ?ts = "filter (\<lambda>t. task_id t \<noteq> n) tasks"
      from assms(2) have 1: "distinct (map task_id ?ts)" by (simp add: distinct_map_filter)
      from b have 2: "\<forall>t\<in>set ?ts. task_id t \<le> b + 1" by auto
      from save_kept [OF assms(1,2) b 1 2, of e] deleteTask_found [OF assms(1) n, of e]
      show ?thesis by auto
    qed
  qed
qed

lemma main_kept:
  assumes "loadTasks f = (json_of_tasks tasks, out)"
      and "distinct (map task_id tasks)" and "\<forall>t\<in>set tasks. task_id t \<le> b"
      and "0 \<le> b" and "b < 2 ^ 53"
  shows "\<exists>f' msgs ts' out'. main argv e f = Some (f', msgs) \<and>
           loadTasks f' = (json_of_tasks ts', out') \<and> distinct (map task_id ts') \<and>
           (\<forall>t\<in>set ts'. task_id t \<le> b + 1)"
proof -
  define P where "P r \<longleftrightarrow> (\<exists>f' msgs ts' out'. r = Some (f', msgs) \<and>
      loadTasks f' = (json_of_tasks ts', out') \<and> distinct (map task_id ts') \<and>
      (\<forall>t\<in>set ts'. task_id t \<le> b + 1))"
    for r :: "(task_file \<times> message list) option"
  from assms(3) have b: "\<forall>t\<in>set tasks. task_id t \<le> b + 1" by auto
  have same: "P (Some (f, m))" for m
    unfolding P_def using assms(1,2) b by blast
  have ops: "P (addTask a e f)" "P (listTasks a f)" "P (updateTask a c e f)" "P (deleteTask a e f)"
    for a c
    unfolding P_def
    using addTask_kept [OF assms] listTasks_kept [OF assms(1-3)] updateTask_kept [OF assms(1-3)]
      deleteTask_kept [OF assms(1-3)]
    by blast+
  have "P (main argv e f)"
    unfolding main_def Let_def by (simp add: same ops)
  then show ?thesis unfolding P_def .
qed

lemma runs_kept:
  assumes "loadTasks f = (json_of_tasks tasks, out)"
      and "distinct (map task_id tasks)" and "\<forall>t\<in>set tasks. task_id t \<le> b"
      and "0 \<le> b" and "b + int (length cmds) \<le> 2 ^ 53"
  shows "\<exists>f' msgs ts' out'. runs cmds f = Some (f', msgs) \<and>
           loadTasks f' = (json_of_tasks ts', out') \<and> distinct (map task_id ts') \<and>
           (\<forall>t\<in>set ts'. task_id t \<le> b + int (length cmds))"
  using assms
proof (induction cmds arbitrary: f tasks out b)
  case Nil
  then show ?case by auto
next
  case (Cons c cmds)
  obtain argv e where c: "c = (argv, e)" by (cases c)
  from Cons.prems(5) have b: "b < 2 ^ 53" "b + 1 + int (length cmds) \<le> 2 ^ 53"
    by simp_all
  from main_kept [OF Cons.prems(1-4) b(1), of argv e] obtain f1 m1 ts1 out1 where
    1: "main argv e f = Some (f1, m1)" "loadTasks f1 = (json_of_tasks ts1, out1)"
       "distinct (map task_id ts1)" "\<forall>t\<in>set ts1. task_id t \<le> b + 1"
    by blast
  from Cons.prems(4) have "0 \<le> b + 1" by simp
  from Cons.IH [OF 1(2,3,4) this b(2)] obtain f2 m2 ts2 out2 where
    2: "runs cmds f1 = Some (f2, m2)" "loadTasks f2 = (json_of_tasks ts2, out2)"
       "distinct (map task_id ts2)" "\<forall>t\<in>set ts2. task_id t \<le> b + 1 + int (length cmds)"
    by blast
  from c 1(1) 2(1) have "runs (c # cmds) f = Some (f2, m1 @ m2)" by simp
  moreover from 2(4) have "\<forall>t\<in>set ts2. task_id t \<le> b + int (length (c # cmds))"
    by (auto simp add: algebra_simps)
  ultimately show ?case using 2(2,3) by blast
qed

subsection \<open>Successive adds\<close>







text \<open>
  Past the bound the ids repeat: from a store whose greatest id is \<open>2^53 - 1\<close>, two
  adds both assign \<open>2^53\<close>.
\<close>

lemma adds_past_2_53:
  "runs [([''node'', ''task-cli.js'', ''add'', ''x''], \<lparr>now = ''t5'', write_ok = True\<rparr>),
         ([''node'', ''task-cli.js'', ''add'', ''y''], \<lparr>now = ''t6'', write_ok = True\<rparr>)]
     (File True (Document (json_of_tasks
     [\<lparr>task_id = 9007199254740991, description = ''a'', status = ''todo'', createdAt = ''t1'', updatedAt = ''t1''\<rparr>])))
   = Some ((File True (Document (json_of_tasks
     [\<lparr>task_id = 9007199254740991, description = ''a'', status = ''todo'', createdAt = ''t1'', updatedAt = ''t1''\<rparr>,
      \<lparr>task_id = 9007199254740992, description = ''x'', status = ''todo'', createdAt = ''t5'', updatedAt = ''t5''\<rparr>,
      \<lparr>task_id = 9007199254740992, description = ''y'', status = ''todo'', createdAt = ''t6'', updatedAt = ''t6''\<rparr>]))),
      [Added 9007199254740992, Added 9007199254740992])"
  by code_simp

section \<open>Loading the store\<close>

text \<open>
  What \<open>loadTasks\<close> returns, by the state of the file: the empty array, with no report,
  when the file is missing or of length zero; the empty array and the report of corrupt
  data when the file cannot be read or its text is not JSON; and the parsed value, with
  no report, for every JSON document.
\<close>

lemma loadTasks_returns:
  "loadTasks Missing = (JArr [], []) \<and>
   loadTasks (File r Empty) = (JArr [], []) \<and>
   loadTasks (File r Malformed) = (JArr [], [CorruptFile]) \<and>
   loadTasks (File False (Document v)) = (JArr [], [CorruptFile]) \<and>
   loadTasks (File True (Document v)) = (v, [])"
  by (simp add: loadTasks_def loadTasks_try_def)

text \<open>
  Claim C5 does not hold of the code. On the file \<^verbatim>\<open>{"tasks": []}\<close>, whose content is
  JSON but not a sequence of task records, \<open>loadTasks\<close> returns the parsed object as it
  is, not the empty sequence, and reports nothing: the content is never compared with
  the schema, though the function is documented to return the array of tasks, or an
  empty array on an error.
\<close>

theorem loadTasks_no_schema_check:
  "loadTasks (File True (Document (JObj [(''tasks'', JArr [])])))
     = (JObj [(''tasks'', JArr [])], []) \<and>
   tasks_of_json (JObj [(''tasks'', JArr [])]) = None"
  by (simp add: loadTasks_def loadTasks_try_def tasks_of_json_def)

section \<open>Changing the status\<close>

text \<open>
  Claim C1 does not hold of the code: \<open>main\<close> answers \<^verbatim>\<open>mark-in-progress\<close> and
  \<^verbatim>\<open>mark-done\<close> with the notice that the command is in development. On a store whose
  task 1 is \<^verbatim>\<open>todo\<close>, \<^verbatim>\<open>mark-done 1\<close> leaves the file as it was, status included.
\<close>

theorem main_mark_done_stub:
  "main [''node'', ''task-cli.js'', ''mark-done'', ''1'']
      \<lparr>now = ''2026-01-02T00:00:00.000Z'', write_ok = True\<rparr>
      (File True (Document (json_of_tasks
        [\<lparr>task_id = 1, description = ''write'', status = ''todo'',
          createdAt = ''2026-01-01T00:00:00.000Z'',
          updatedAt = ''2026-01-01T00:00:00.000Z''\<rparr>])))
   = Some (File True (Document (json_of_tasks
        [\<lparr>task_id = 1, description = ''write'', status = ''todo'',
          createdAt = ''2026-01-01T00:00:00.000Z'',
          updatedAt = ''2026-01-01T00:00:00.000Z''\<rparr>])),
      [InDevelopment ''mark-done''])"
  by (simp add: main_def at_def falsy_def)

section \<open>Listing\<close>

text \<open>
  Claim C9. On every stored collection \<open>tasks\<close>, listing with no filter or with
  \<^verbatim>\<open>all\<close> displays exactly \<open>tasks\<close>, and listing with a status \<open>s\<close> of \<^verbatim>\<open>todo\<close>,
  \<^verbatim>\<open>in-progress\<close>, \<^verbatim>\<open>done\<close> displays exactly the tasks whose status is \<open>s\<close>, in
  stored order; the file is left as it was. When that selection is empty the run prints
  a notice and displays no task. In particular, on a collection in which exactly one
  task \<open>t\<close> is \<^verbatim>\<open>done\<close> (task 3, say), listing \<^verbatim>\<open>done\<close> displays exactly \<open>t\<close>.
  A stored collection is a file from which \<open>loadTasks\<close> returns the array of \<open>tasks\<close>.
\<close>

theorem listTasks_shows_matching:
  assumes "loadTasks f = (json_of_tasks tasks, out)"
  shows "(flt = None \<or> flt = Some ''all'' \<longrightarrow>
            (\<exists>msgs. listTasks flt f = Some (f, msgs) \<and> shown msgs = tasks)) \<and>
         (s \<in> {''todo'', ''in-progress'', ''done''} \<longrightarrow>
            (\<exists>msgs. listTasks (Some s) f = Some (f, msgs) \<and>
                    shown msgs = filter (\<lambda>t. status t = s) tasks)) \<and>
         (tasks = pre @ t # post \<and> status t = ''done'' \<and>
          (\<forall>u\<in>set (pre @ post). status u \<noteq> ''done'') \<longrightarrow>
            (\<exists>msgs. listTasks (Some ''done'') f = Some (f, msgs) \<and> shown msgs = [t]))"
proof -
  have out: "shown out = []"
    using shown_loadTasks [of f] assms by simp
  have all: "\<exists>msgs. listTasks flt f = Some (f, msgs) \<and> shown msgs = tasks"
    if "flt = None \<or> flt = Some ''all''"
    using that out
    by (auto simp add: listTasks_stored [OF assms] falsy_def toLowerCase_all shown_append Let_def)
  have one: "\<exists>msgs. listTasks (Some s') f = Some (f, msgs) \<and>
                    shown msgs = filter (\<lambda>t. status t = s') tasks"
    if "s' \<in> {''todo'', ''in-progress'', ''done''}" for s'
  proof -
    from that have low: "toLowerCase s' = s'" by (intro valid_lower) auto
    from that have ne: "s' \<noteq> []" "s' \<noteq> ''all''" "s' \<in> set validStatuses"
      by (auto simp add: validStatuses_def)
    show ?thesis
      using out ne low
      by (simp add: listTasks_stored [OF assms] falsy_def shown_append Let_def)
  qed
  have ex: "\<exists>msgs. listTasks (Some ''done'') f = Some (f, msgs) \<and> shown msgs = [t]"
    if "tasks = pre @ t # post \<and> status t = ''done'' \<and>
        (\<forall>u\<in>set (pre @ post). status u \<noteq> ''done'')"
  proof -
    from that have "filter (\<lambda>t. status t = ''done'') tasks = [t]"
      by (auto simp add: filter_empty_conv)
    with one [of "''done''"] show ?thesis by simp
  qed
  from all one [of s] ex show ?thesis by blast
qed

text \<open>The theorem at a store of a \<^verbatim>\<open>todo\<close> task 1 and a \<^verbatim>\<open>done\<close> task 3.\<close>

theorem listTasks_shows_matching_witness:
  "(\<exists>msgs. listTasks None
    (File True (Document (json_of_tasks
     [\<lparr>task_id = 1, description = ''a'', status = ''todo'', createdAt = ''t1'', updatedAt = ''t1''\<rparr>,
      \<lparr>task_id = 3, description = ''c'', status = ''done'', createdAt = ''t2'', updatedAt = ''t3''\<rparr>])))
    = Some ((File True (Document (json_of_tasks
     [\<lparr>task_id = 1, description = ''a'', status = ''todo'', createdAt = ''t1'', updatedAt = ''t1''\<rparr>,
      \<lparr>task_id = 3, description = ''c'', status = ''done'', createdAt = ''t2'', updatedAt = ''t3''\<rparr>]))), msgs) \<and>
    shown msgs =
     [\<lparr>task_id = 1, description = ''a'', status = ''todo'', createdAt = ''t1'', updatedAt = ''t1''\<rparr>,
      \<lparr>task_id = 3, description = ''c'', status = ''done'', createdAt = ''t2'', updatedAt = ''t3''\<rparr>]) \<and>
   (\<exists>msgs. listTasks (Some ''done'')
    (File True (Document (json_of_tasks
     [\<lparr>task_id = 1, description = ''a'', status = ''todo'', createdAt = ''t1'', updatedAt = ''t1''\<rparr>,
      \<lparr>task_id = 3, description = ''c'', status = ''done'', createdAt = ''t2'', updatedAt = ''t3''\<rparr>])))
    = Some ((File True (Document (json_of_tasks
     [\<lparr>task_id = 1, description = ''a'', status = ''todo'', createdAt = ''t1'', updatedAt = ''t1''\<rparr>,
      \<lparr>task_id = 3, description = ''c'', status = ''done'', createdAt = ''t2'', updatedAt = ''t3''\<rparr>]))), msgs) \<and>
    shown msgs =
     [\<lparr>task_id = 3, description = ''c'', status = ''done'', createdAt = ''t2'', updatedAt = ''t3''\<rparr>])"
proof -
  let ?t1 = "\<lparr>task_id = 1, description = ''a'', status = ''todo'', createdAt = ''t1'', updatedAt = ''t1''\<rparr>"
  let ?t3 = "\<lparr>task_id = 3, description = ''c'', status = ''done'', createdAt = ''t2'', updatedAt = ''t3''\<rparr>"
  have l: "loadTasks (File True (Document (json_of_tasks [?t1, ?t3]))) = (json_of_tasks [?t1, ?t3], [])"
    by (rule loadTasks_Document)
  from listTasks_shows_matching [OF l, where flt = None and s = "''done''" and pre = "[?t1]"
      and t = ?t3 and post = "[]"]
  show ?thesis by simp
qed

text \<open>
  Claim C3, as amended. On an empty stored collection listing prints that no task is
  registered, whatever the filter. On a non-empty one, a non-empty filter string whose
  lower-case form is none of \<^verbatim>\<open>all\<close>, \<^verbatim>\<open>todo\<close>, \<^verbatim>\<open>in-progress\<close>, \<^verbatim>\<open>done\<close> is
  reported as invalid, and that report is the only message: no task is displayed and
  the file is left as it was. The empty filter string is the filter left out.
\<close>

theorem listTasks_invalid_filter:
  assumes "loadTasks f = (json_of_tasks tasks, out)"
  shows "(tasks = [] \<longrightarrow> listTasks flt f = Some (f, out @ [NoTasks])) \<and>
         (tasks \<noteq> [] \<and> s \<noteq> [] \<and>
          toLowerCase s \<notin> {''all'', ''todo'', ''in-progress'', ''done''} \<longrightarrow>
            listTasks (Some s) f = Some (f, out @ [InvalidFilter (toLowerCase s)])) \<and>
         listTasks (Some []) f = listTasks None f"
  by (simp add: listTasks_stored [OF assms] falsy_def validStatuses_def Let_def)

text \<open>The theorem at the filter \<^verbatim>\<open>Bogus\<close>, on a store of two tasks and with no file.\<close>

theorem listTasks_invalid_filter_witness:
  "listTasks (Some ''Bogus'')
     (File True (Document (json_of_tasks
     [\<lparr>task_id = 1, description = ''a'', status = ''todo'', createdAt = ''t1'', updatedAt = ''t1''\<rparr>,
      \<lparr>task_id = 3, description = ''c'', status = ''done'', createdAt = ''t2'', updatedAt = ''t3''\<rparr>])))
   = Some ((File True (Document (json_of_tasks
     [\<lparr>task_id = 1, description = ''a'', status = ''todo'', createdAt = ''t1'', updatedAt = ''t1''\<rparr>,
      \<lparr>task_id = 3, description = ''c'', status = ''done'', createdAt = ''t2'', updatedAt = ''t3''\<rparr>]))),
      [InvalidFilter ''bogus'']) \<and>
   listTasks (Some ''Bogus'') Missing = Some (Missing, [NoTasks])"
proof -
  let ?ts = "[\<lparr>task_id = 1, description = ''a'', status = ''todo'', createdAt = ''t1'', updatedAt = ''t1''\<rparr>,
      \<lparr>task_id = 3, description = ''c'', status = ''done'', createdAt = ''t2'', updatedAt = ''t3''\<rparr>]"
  have l: "loadTasks (File True (Document (json_of_tasks ?ts))) = (json_of_tasks ?ts, [])"
    by (rule loadTasks_Document)
  have m: "loadTasks Missing = (json_of_tasks [], [])"
    by (simp add: loadTasks_Missing json_of_tasks_def)
  have low: "toLowerCase ''Bogus'' = ''bogus''"
    by code_simp
  from listTasks_invalid_filter [OF l, where s = "''Bogus''"]
       listTasks_invalid_filter [OF m, where flt = "Some ''Bogus''"] low
  show ?thesis by simp
qed

text \<open>
  Claim C3 as stated fails: with no stored task the filter \<^verbatim>\<open>bogus\<close> is not reported;
  \<^verbatim>\<open>DONE\<close>, which is not one of the four strings, selects the \<^verbatim>\<open>done\<close> tasks; and
  the empty string lists every task.
\<close>

theorem listTasks_filter_not_always_rejected:
  "listTasks (Some ''bogus'') Missing = Some (Missing, [NoTasks]) \<and>
   listTasks (Some ''DONE'')
     (File True (Document (json_of_tasks
     [\<lparr>task_id = 1, description = ''a'', status = ''todo'', createdAt = ''t1'', updatedAt = ''t1''\<rparr>,
      \<lparr>task_id = 3, description = ''c'', status = ''done'', createdAt = ''t2'', updatedAt = ''t3''\<rparr>])))
   = Some ((File True (Document (json_of_tasks
     [\<lparr>task_id = 1, description = ''a'', status = ''todo'', createdAt = ''t1'', updatedAt = ''t1''\<rparr>,
      \<lparr>task_id = 3, description = ''c'', status = ''done'', createdAt = ''t2'', updatedAt = ''t3''\<rparr>]))),
      [Listing [\<lparr>task_id = 3, description = ''c'', status = ''done'', createdAt = ''t2'', updatedAt = ''t3''\<rparr>]]) \<and>
   listTasks (Some [])
     (File True (Document (json_of_tasks
     [\<lparr>task_id = 1, description = ''a'', status = ''todo'', createdAt = ''t1'', updatedAt = ''t1''\<rparr>,
      \<lparr>task_id = 3, description = ''c'', status = ''done'', createdAt = ''t2'', updatedAt = ''t3''\<rparr>])))
   = Some ((File True (Document (json_of_tasks
     [\<lparr>task_id = 1, description = ''a'', status = ''todo'', createdAt = ''t1'', updatedAt = ''t1''\<rparr>,
      \<lparr>task_id = 3, description = ''c'', status = ''done'', createdAt = ''t2'', updatedAt = ''t3''\<rparr>]))),
      [Listing
        [\<lparr>task_id = 1, description = ''a'', status = ''todo'', createdAt = ''t1'', updatedAt = ''t1''\<rparr>,
         \<lparr>task_id = 3, description = ''c'', status = ''done'', createdAt = ''t2'', updatedAt = ''t3''\<rparr>]])"
  by code_simp

text \<open>
  Claim C10. For every file and every filter string \<open>s\<close>, listing with \<open>s\<close> is listing
  with the lower-case form of \<open>s\<close>: the file after the run and every message are the same.
\<close>

theorem listTasks_case_insensitive:
  "listTasks (Some s) f = listTasks (Some (toLowerCase s)) f"
  by (cases "loadTasks f")
     (simp add: listTasks_def falsy_def toLowerCase_idem toLowerCase_Nil split: option.split)

section \<open>Updating a description\<close>

text \<open>
  Claim C4, as amended. On every stored collection, \<open>updateTask\<close> prints its usage
  message and leaves the file as it was if \<^verbatim>\<open>parseInt\<close> of the id argument is \<open>NaN\<close>
  or the description is missing or empty. Otherwise, with \<^verbatim>\<open>parseInt\<close> giving the
  number \<open>taskId\<close> and with a description \<open>d\<close>: if no stored id equals \<open>taskId\<close>, it
  reports that \<open>taskId\<close> was not found and leaves the file as it was; and if \<open>taskId\<close> is
  the stored id \<open>n\<close>, it saves the collection in which the first task of id \<open>n\<close> has
  description \<open>d\<close> and \<open>updatedAt\<close> the time of the run, every other field and task
  unchanged, and confirms. The number need not be positive, the argument need not be a
  numeral throughout, and a numeral too long for a double stands for its nearest double.
\<close>

theorem updateTask_behaviour:
  assumes "loadTasks f = (json_of_tasks tasks, out)"
  shows "(parseInt (ToString ident) = NaN \<or> falsy descr \<longrightarrow>
            updateTask ident descr e f = Some (f, out @ [UpdateUsage])) \<and>
         (parseInt (ToString ident) = taskId \<and> taskId \<noteq> NaN \<and> \<not> falsy descr \<and>
          taskId \<notin> Finite ` task_id ` set tasks \<longrightarrow>
            updateTask ident descr e f = Some (f, out @ [NotFound taskId])) \<and>
         (parseInt (ToString ident) = Finite n \<and> descr = Some d \<and> d \<noteq> [] \<and>
          n \<in> task_id ` set tasks \<longrightarrow>
            (\<exists>pre t post. tasks = pre @ t # post \<and> task_id t = n \<and> n \<notin> task_id ` set pre \<and>
               updateTask ident descr e f =
                 Some (fst (saveTasks (pre @ t\<lparr>description := d, updatedAt := now e\<rparr> # post) e f),
                       out @ snd (saveTasks (pre @ t\<lparr>description := d, updatedAt := now e\<rparr> # post) e f)
                       @ [Updated (Finite n)])))"
proof (intro conjI impI)
  assume "parseInt (ToString ident) = NaN \<or> falsy descr"
  then show "updateTask ident descr e f = Some (f, out @ [UpdateUsage])"
    using updateTask_invalid [of ident descr e f] assms by simp
next
  assume "parseInt (ToString ident) = taskId \<and> taskId \<noteq> NaN \<and> \<not> falsy descr \<and>
          taskId \<notin> Finite ` task_id ` set tasks"
  then show "updateTask ident descr e f = Some (f, out @ [NotFound taskId])"
    using updateTask_missing [OF assms] by blast
next
  assume a: "parseInt (ToString ident) = Finite n \<and> descr = Some d \<and> d \<noteq> [] \<and>
             n \<in> task_id ` set tasks"
  then have "\<exists>t\<in>set tasks. task_id t = n" by auto
  then obtain pre t post where s: "tasks = pre @ t # post" "task_id t = n"
      "\<forall>y\<in>set pre. task_id y \<noteq> n"
    using first_match_split [of tasks "\<lambda>t. task_id t = n"] by blast
  from s(3) have pre: "n \<notin> task_id ` set pre" by auto
  from assms s(1) have "loadTasks f = (json_of_tasks (pre @ t # post), out)" by simp
  from updateTask_found [OF this _ _ s(2) pre, of ident d e] a s(1,2) pre
  show "\<exists>pre t post. tasks = pre @ t # post \<and> task_id t = n \<and> n \<notin> task_id ` set pre \<and>
               updateTask ident descr e f =
                 Some (fst (saveTasks (pre @ t\<lparr>description := d, updatedAt := now e\<rparr> # post) e f),
                       out @ snd (saveTasks (pre @ t\<lparr>description := d, updatedAt := now e\<rparr> # post) e f)
                       @ [Updated (Finite n)])"
    by blast
qed

text \<open>
  The cases of the theorem, on a store of tasks 1 and 3, and on a store of task
  \<open>2^53\<close> at the id argument \<^verbatim>\<open>9007199254740993\<close>, which \<^verbatim>\<open>parseInt\<close> reads as \<open>2^53\<close>.
\<close>

theorem updateTask_behaviour_witness:
  "updateTask (Some ''abc'') (Some ''x'') \<lparr>now = ''t9'', write_ok = True\<rparr>
     (File True (Document (json_of_tasks
     [\<lparr>task_id = 1, description = ''a'', status = ''todo'', createdAt = ''t1'', updatedAt = ''t1''\<rparr>,
      \<lparr>task_id = 3, description = ''c'', status = ''done'', createdAt = ''t2'', updatedAt = ''t3''\<rparr>])))
   = Some ((File True (Document (json_of_tasks
     [\<lparr>task_id = 1, description = ''a'', status = ''todo'', createdAt = ''t1'', updatedAt = ''t1''\<rparr>,
      \<lparr>task_id = 3, description = ''c'', status = ''done'', createdAt = ''t2'', updatedAt = ''t3''\<rparr>]))),
      [UpdateUsage]) \<and>
   updateTask (Some ''0xg'') (Some ''x'') \<lparr>now = ''t9'', write_ok = True\<rparr>
     (File True (Document (json_of_tasks
     [\<lparr>task_id = 1, description = ''a'', status = ''todo'', createdAt = ''t1'', updatedAt = ''t1''\<rparr>,
      \<lparr>task_id = 3, description = ''c'', status = ''done'', createdAt = ''t2'', updatedAt = ''t3''\<rparr>])))
   = Some ((File True (Document (json_of_tasks
     [\<lparr>task_id = 1, description = ''a'', status = ''todo'', createdAt = ''t1'', updatedAt = ''t1''\<rparr>,
      \<lparr>task_id = 3, description = ''c'', status = ''done'', createdAt = ''t2'', updatedAt = ''t3''\<rparr>]))),
      [UpdateUsage]) \<and>
   updateTask (Some ''7'') (Some ''x'') \<lparr>now = ''t9'', write_ok = True\<rparr>
     (File True (Document (json_of_tasks
     [\<lparr>task_id = 1, description = ''a'', status = ''todo'', createdAt = ''t1'', updatedAt = ''t1''\<rparr>,
      \<lparr>task_id = 3, description = ''c'', status = ''done'', createdAt = ''t2'', updatedAt = ''t3''\<rparr>])))
   = Some ((File True (Document (json_of_tasks
     [\<lparr>task_id = 1, description = ''a'', status = ''todo'', createdAt = ''t1'', updatedAt = ''t1''\<rparr>,
      \<lparr>task_id = 3, description = ''c'', status = ''done'', createdAt = ''t2'', updatedAt = ''t3''\<rparr>]))),
      [NotFound (Finite 7)]) \<and>
   updateTask (Some ''1'') (Some ''x'') \<lparr>now = ''t9'', write_ok = True\<rparr>
     (File True (Document (json_of_tasks
     [\<lparr>task_id = 1, description = ''a'', status = ''todo'', createdAt = ''t1'', updatedAt = ''t1''\<rparr>,
      \<lparr>task_id = 3, description = ''c'', status = ''done'', createdAt = ''t2'', updatedAt = ''t3''\<rparr>])))
   = Some ((File True (Document (json_of_tasks
     [\<lparr>task_id = 1, description = ''x'', status = ''todo'', createdAt = ''t1'', updatedAt = ''t9''\<rparr>,
      \<lparr>task_id = 3, description = ''c'', status = ''done'', createdAt = ''t2'', updatedAt = ''t3''\<rparr>]))),
      [Updated (Finite 1)]) \<and>
   updateTask (Some ''9007199254740993'') (Some ''x'') \<lparr>now = ''t9'', write_ok = True\<rparr>
     (File True (Document (json_of_tasks
     [\<lparr>task_id = 9007199254740992, description = ''a'', status = ''todo'', createdAt = ''t1'', updatedAt = ''t1''\<rparr>])))
   = Some ((File True (Document (json_of_tasks
     [\<lparr>task_id = 9007199254740992, description = ''x'', status = ''todo'', createdAt = ''t1'', updatedAt = ''t9''\<rparr>]))),
      [Updated (Finite 9007199254740992)])"
proof -
  let ?ts = "[\<lparr>task_id = 1, description = ''a'', status = ''todo'', createdAt = ''t1'', updatedAt = ''t1''\<rparr>,
      \<lparr>task_id = 3, description = ''c'', status = ''done'', createdAt = ''t2'', updatedAt = ''t3''\<rparr>]"
  let ?tb = "\<lparr>task_id = 9007199254740992, description = ''a'', status = ''todo'', createdAt = ''t1'', updatedAt = ''t1''\<rparr>"
  let ?e = "\<lparr>now = ''t9'', write_ok = True\<rparr>"
  have l: "loadTasks (File True (Document (json_of_tasks ?ts))) = (json_of_tasks ?ts, [])"
    by (rule loadTasks_Document)
  have lb: "loadTasks (File True (Document (json_of_tasks [?tb]))) = (json_of_tasks [?tb], [])"
    by (rule loadTasks_Document)
  have p: "parseInt (ToString (Some ''abc'')) = NaN" "parseInt (ToString (Some ''0xg'')) = NaN"
      "parseInt (ToString (Some ''7'')) = Finite 7" "parseInt (ToString (Some ''1'')) = Finite 1"
      "parseInt (ToString (Some ''9007199254740993'')) = Finite 9007199254740992"
    by code_simp+
  from updateTask_behaviour [OF l, where ident = "Some ''abc''" and descr = "Some ''x''" and e = ?e
      and taskId = NaN] p(1)
  have a: "updateTask (Some ''abc'') (Some ''x'') ?e (File True (Document (json_of_tasks ?ts)))
      = Some (File True (Document (json_of_tasks ?ts)), [UpdateUsage])"
    by simp
  from updateTask_behaviour [OF l, where ident = "Some ''0xg''" and descr = "Some ''x''" and e = ?e
      and taskId = NaN] p(2)
  have a': "updateTask (Some ''0xg'') (Some ''x'') ?e (File True (Document (json_of_tasks ?ts)))
      = Some (File True (Document (json_of_tasks ?ts)), [UpdateUsage])"
    by simp
  from updateTask_behaviour [OF l, where ident = "Some ''7''" and descr = "Some ''x''" and e = ?e
      and taskId = "Finite 7"] p(3)
  have b: "updateTask (Some ''7'') (Some ''x'') ?e (File True (Document (json_of_tasks ?ts)))
      = Some (File True (Document (json_of_tasks ?ts)), [NotFound (Finite 7)])"
    by (simp add: falsy_def image_iff)
  from updateTask_behaviour [OF l, where ident = "Some ''1''" and descr = "Some ''x''" and e = ?e
      and n = 1 and d = "''x''" and taskId = NaN] p(4)
  obtain pre t post where s: "?ts = pre @ t # post" "task_id t = 1" "1 \<notin> task_id ` set pre"
    and u: "updateTask (Some ''1'') (Some ''x'') ?e (File True (Document (json_of_tasks ?ts)))
      = Some (fst (saveTasks (pre @ t\<lparr>description := ''x'', updatedAt := now ?e\<rparr> # post) ?e
                 (File True (Document (json_of_tasks ?ts)))),
              [] @ snd (saveTasks (pre @ t\<lparr>description := ''x'', updatedAt := now ?e\<rparr> # post) ?e
                 (File True (Document (json_of_tasks ?ts)))) @ [Updated (Finite 1)])"
    by auto
  from s have "pre = []" by (cases pre) auto
  with s(1) have "t = \<lparr>task_id = 1, description = ''a'', status = ''todo'', createdAt = ''t1'', updatedAt = ''t1''\<rparr>" "post = [\<lparr>task_id = 3, description = ''c'', status = ''done'', createdAt = ''t2'', updatedAt = ''t3''\<rparr>]"
    by simp_all
  with u \<open>pre = []\<close> have c: "updateTask (Some ''1'') (Some ''x'') ?e (File True (Document (json_of_tasks ?ts)))
      = Some (File True (Document (json_of_tasks [\<lparr>task_id = 1, description = ''x'', status = ''todo'', createdAt = ''t1'', updatedAt = ''t9''\<rparr>, \<lparr>task_id = 3, description = ''c'', status = ''done'', createdAt = ''t2'', updatedAt = ''t3''\<rparr>])), [Updated (Finite 1)])"
    by (simp add: saveTasks_eq)
  from updateTask_behaviour [OF lb, where ident = "Some ''9007199254740993''" and descr = "Some ''x''"
      and e = ?e and n = 9007199254740992 and d = "''x''" and taskId = NaN] p(5)
  obtain pre' t' post' where s': "[?tb] = pre' @ t' # post'"
    and u': "updateTask (Some ''9007199254740993'') (Some ''x'') ?e
        (File True (Document (json_of_tasks [?tb])))
      = Some (fst (saveTasks (pre' @ t'\<lparr>description := ''x'', updatedAt := now ?e\<rparr> # post') ?e
                 (File True (Document (json_of_tasks [?tb])))),
              [] @ snd (saveTasks (pre' @ t'\<lparr>description := ''x'', updatedAt := now ?e\<rparr> # post') ?e
                 (File True (Document (json_of_tasks [?tb])))) @ [Updated (Finite 9007199254740992)])"
    by auto
  from s' have "pre' = []" by (cases pre') auto
  with s' have "t' = ?tb" "post' = []"
    by simp_all
  with u' \<open>pre' = []\<close> have c': "updateTask (Some ''9007199254740993'') (Some ''x'') ?e
        (File True (Document (json_of_tasks [?tb])))
      = Some (File True (Document (json_of_tasks [\<lparr>task_id = 9007199254740992, description = ''x'', status = ''todo'', createdAt = ''t1'', updatedAt = ''t9''\<rparr>])), [Updated (Finite 9007199254740992)])"
    by (simp add: saveTasks_eq)
  from a a' b c c' show ?thesis by simp
qed

text \<open>
  Claim C4 as stated fails: the id argument \<^verbatim>\<open>1.5\<close> is not an integer and updates
  task 1; \<^verbatim>\<open>0\<close> and \<^verbatim>\<open>-4\<close> are not positive and reach the search, which reports
  them as not found.
\<close>

theorem updateTask_accepts_other_ids:
  "updateTask (Some ''1.5'') (Some ''x'') \<lparr>now = ''t9'', write_ok = True\<rparr>
     (File True (Document (json_of_tasks
     [\<lparr>task_id = 1, description = ''a'', status = ''todo'', createdAt = ''t1'', updatedAt = ''t1''\<rparr>,
      \<lparr>task_id = 3, description = ''c'', status = ''done'', createdAt = ''t2'', updatedAt = ''t3''\<rparr>])))
   = Some ((File True (Document (json_of_tasks
     [\<lparr>task_id = 1, description = ''x'', status = ''todo'', createdAt = ''t1'', updatedAt = ''t9''\<rparr>,
      \<lparr>task_id = 3, description = ''c'', status = ''done'', createdAt = ''t2'', updatedAt = ''t3''\<rparr>]))),
      [Updated (Finite 1)]) \<and>
   updateTask (Some ''0'') (Some ''x'') \<lparr>now = ''t9'', write_ok = True\<rparr>
     (File True (Document (json_of_tasks
     [\<lparr>task_id = 1, description = ''a'', status = ''todo'', createdAt = ''t1'', updatedAt = ''t1''\<rparr>,
      \<lparr>task_id = 3, description = ''c'', status = ''done'', createdAt = ''t2'', updatedAt = ''t3''\<rparr>])))
   = Some ((File True (Document (json_of_tasks
     [\<lparr>task_id = 1, description = ''a'', status = ''todo'', createdAt = ''t1'', updatedAt = ''t1''\<rparr>,
      \<lparr>task_id = 3, description = ''c'', status = ''done'', createdAt = ''t2'', updatedAt = ''t3''\<rparr>]))),
      [NotFound (Finite 0)]) \<and>
   updateTask (Some ''-4'') (Some ''x'') \<lparr>now = ''t9'', write_ok = True\<rparr>
     (File True (Document (json_of_tasks
     [\<lparr>task_id = 1, description = ''a'', status = ''todo'', createdAt = ''t1'', updatedAt = ''t1''\<rparr>,
      \<lparr>task_id = 3, description = ''c'', status = ''done'', createdAt = ''t2'', updatedAt = ''t3''\<rparr>])))
   = Some ((File True (Document (json_of_tasks
     [\<lparr>task_id = 1, description = ''a'', status = ''todo'', createdAt = ''t1'', updatedAt = ''t1''\<rparr>,
      \<lparr>task_id = 3, description = ''c'', status = ''done'', createdAt = ''t2'', updatedAt = ''t3''\<rparr>]))),
      [NotFound (Finite (- 4))])"
  by code_simp

text \<open>
  Claim C8. On every stored collection, \<open>updateTask\<close> with an id argument that
  \<^verbatim>\<open>parseInt\<close> reads as a number \<open>taskId\<close> (not \<open>NaN\<close>) equal to no stored id leaves the
  file as it was, whether or not it could be written, and, given a description, its only
  message beyond those of loading is that \<open>taskId\<close> was not found.
\<close>

theorem updateTask_unknown_id:
  assumes "loadTasks f = (json_of_tasks tasks, out)"
      and "parseInt (ToString ident) = taskId" and "taskId \<noteq> NaN"
      and "taskId \<notin> Finite ` task_id ` set tasks"
  shows "(\<exists>msgs. updateTask ident descr e f = Some (f, msgs)) \<and>
         (\<not> falsy descr \<longrightarrow> updateTask ident descr e f = Some (f, out @ [NotFound taskId]))"
proof (cases "falsy descr")
  case True
  then show ?thesis using updateTask_invalid [of ident descr e f] by simp
next
  case False
  then show ?thesis using updateTask_missing [OF assms(1,2,3) False assms(4)] by simp
qed

text \<open>
  The theorem at the id \<^verbatim>\<open>7\<close>, on a store of tasks 1 and 3, and at the id
  \<^verbatim>\<open>9007199254740993\<close>, read as \<open>2^53\<close>, on the same store.
\<close>

theorem updateTask_unknown_id_witness:
  "(\<exists>msgs. updateTask (Some ''7'') (Some ''x'') \<lparr>now = ''t9'', write_ok = True\<rparr>
     (File True (Document (json_of_tasks
     [\<lparr>task_id = 1, description = ''a'', status = ''todo'', createdAt = ''t1'', updatedAt = ''t1''\<rparr>,
      \<lparr>task_id = 3, description = ''c'', status = ''done'', createdAt = ''t2'', updatedAt = ''t3''\<rparr>])))
   = Some ((File True (Document (json_of_tasks
     [\<lparr>task_id = 1, description = ''a'', status = ''todo'', createdAt = ''t1'', updatedAt = ''t1''\<rparr>,
      \<lparr>task_id = 3, description = ''c'', status = ''done'', createdAt = ''t2'', updatedAt = ''t3''\<rparr>]))), msgs)) \<and>
   updateTask (Some ''7'') (Some ''x'') \<lparr>now = ''t9'', write_ok = True\<rparr>
     (File True (Document (json_of_tasks
     [\<lparr>task_id = 1, description = ''a'', status = ''todo'', createdAt = ''t1'', updatedAt = ''t1''\<rparr>,
      \<lparr>task_id = 3, description = ''c'', status = ''done'', createdAt = ''t2'', updatedAt = ''t3''\<rparr>])))
   = Some ((File True (Document (json_of_tasks
     [\<lparr>task_id = 1, description = ''a'', status = ''todo'', createdAt = ''t1'', updatedAt = ''t1''\<rparr>,
      \<lparr>task_id = 3, description = ''c'', status = ''done'', createdAt = ''t2'', updatedAt = ''t3''\<rparr>]))),
      [NotFound (Finite 7)]) \<and>
   updateTask (Some ''9007199254740993'') (Some ''x'') \<lparr>now = ''t9'', write_ok = True\<rparr>
     (File True (Document (json_of_tasks
     [\<lparr>task_id = 1, description = ''a'', status = ''todo'', createdAt = ''t1'', updatedAt = ''t1''\<rparr>,
      \<lparr>task_id = 3, description = ''c'', status = ''done'', createdAt = ''t2'', updatedAt = ''t3''\<rparr>])))
   = Some ((File True (Document (json_of_tasks
     [\<lparr>task_id = 1, description = ''a'', status = ''todo'', createdAt = ''t1'', updatedAt = ''t1''\<rparr>,
      \<lparr>task_id = 3, description = ''c'', status = ''done'', createdAt = ''t2'', updatedAt = ''t3''\<rparr>]))),
      [NotFound (Finite 9007199254740992)])"
proof -
  let ?ts = "[\<lparr>task_id = 1, description = ''a'', status = ''todo'', createdAt = ''t1'', updatedAt = ''t1''\<rparr>,
      \<lparr>task_id = 3, description = ''c'', status = ''done'', createdAt = ''t2'', updatedAt = ''t3''\<rparr>]"
  have l: "loadTasks (File True (Document (json_of_tasks ?ts))) = (json_of_tasks ?ts, [])"
    by (rule loadTasks_Document)
  have p: "parseInt (ToString (Some ''7'')) = Finite 7"
      "parseInt (ToString (Some ''9007199254740993'')) = Finite 9007199254740992"
    by code_simp+
  have n: "Finite 7 \<notin> Finite ` task_id ` set ?ts" "Finite 9007199254740992 \<notin> Finite ` task_id ` set ?ts"
    by (simp_all add: image_iff)
  from updateTask_unknown_id [OF l p(1) _ n(1), where descr = "Some ''x''"]
       updateTask_unknown_id [OF l p(2) _ n(2), where descr = "Some ''x''"]
  show ?thesis by (simp add: falsy_def)
qed

section \<open>Deleting a task\<close>

text \<open>
  Claim C7. On every stored collection \<open>tasks\<close> of distinct ids, with an id argument
  that \<^verbatim>\<open>parseInt\<close> reads as the number \<open>taskId\<close>: if \<open>taskId\<close> is the id \<open>n\<close> of a task
  then \<open>tasks\<close> is \<open>pre @ t # post\<close> with \<open>t\<close> that task, and \<open>deleteTask\<close> saves
  \<open>pre @ post\<close>, every other record as it was and in the same order, and confirms; if
  \<open>taskId\<close> is a number equal to no stored id it reports that \<open>taskId\<close> was not found and
  does not save: the file is as it was and no write is attempted, so none can fail.
\<close>

theorem deleteTask_removes_one:
  assumes "loadTasks f = (json_of_tasks tasks, out)"
      and "parseInt (ToString ident) = taskId"
      and "distinct (map task_id tasks)"
  shows "(taskId = Finite n \<and> n \<in> task_id ` set tasks \<longrightarrow>
            (\<exists>pre t post. tasks = pre @ t # post \<and> task_id t = n \<and>
               deleteTask ident e f =
                 Some (fst (saveTasks (pre @ post) e f),
                       out @ snd (saveTasks (pre @ post) e f) @ [Deleted (Finite n)]))) \<and>
         (taskId \<noteq> NaN \<and> taskId \<notin> Finite ` task_id ` set tasks \<longrightarrow>
            deleteTask ident e f = Some (f, out @ [NotFound taskId]))"
proof (intro conjI impI)
  assume "taskId \<noteq> NaN \<and> taskId \<notin> Finite ` task_id ` set tasks"
  then show "deleteTask ident e f = Some (f, out @ [NotFound taskId])"
    using deleteTask_missing [OF assms(1,2)] by blast
next
  assume a: "taskId = Finite n \<and> n \<in> task_id ` set tasks"
  then have n: "n \<in> task_id ` set tasks" and p: "parseInt (ToString ident) = Finite n"
    using assms(2) by simp_all
  from n obtain t where "t \<in> set tasks" "task_id t = n" by auto
  then obtain pre post where s: "tasks = pre @ t # post" by (meson split_list)
  with assms(3) \<open>task_id t = n\<close> have "filter (\<lambda>u. task_id u \<noteq> n) tasks = pre @ post"
    using filter_out_unique [of pre t post] by simp
  with deleteTask_found [OF assms(1) p n, of e] s \<open>task_id t = n\<close>
  show "\<exists>pre t post. tasks = pre @ t # post \<and> task_id t = n \<and>
               deleteTask ident e f =
                 Some (fst (saveTasks (pre @ post) e f),
                       out @ snd (saveTasks (pre @ post) e f) @ [Deleted (Finite n)])"
    by auto
qed

text \<open>
  The theorem at the ids \<^verbatim>\<open>2\<close> and \<^verbatim>\<open>7\<close>, on a store of tasks 1, 2 and 3, and at
  the id \<^verbatim>\<open>9007199254740993\<close>, read as \<open>2^53\<close>, on a store of task \<open>2^53\<close>.
\<close>

theorem deleteTask_removes_one_witness:
  "(\<exists>pre t post.
      [\<lparr>task_id = 1, description = ''a'', status = ''todo'', createdAt = ''t1'', updatedAt = ''t1''\<rparr>,
      \<lparr>task_id = 2, description = ''b'', status = ''in-progress'', createdAt = ''t2'', updatedAt = ''t2''\<rparr>,
      \<lparr>task_id = 3, description = ''c'', status = ''done'', createdAt = ''t2'', updatedAt = ''t3''\<rparr>] = pre @ t # post \<and> task_id t = 2 \<and>
      deleteTask (Some ''2'') \<lparr>now = ''t9'', write_ok = True\<rparr>
        (File True (Document (json_of_tasks
        [\<lparr>task_id = 1, description = ''a'', status = ''todo'', createdAt = ''t1'', updatedAt = ''t1''\<rparr>,
         \<lparr>task_id = 2, description = ''b'', status = ''in-progress'', createdAt = ''t2'', updatedAt = ''t2''\<rparr>,
         \<lparr>task_id = 3, description = ''c'', status = ''done'', createdAt = ''t2'', updatedAt = ''t3''\<rparr>])))
      = Some (fst (saveTasks (pre @ post) \<lparr>now = ''t9'', write_ok = True\<rparr>
                (File True (Document (json_of_tasks
                [\<lparr>task_id = 1, description = ''a'', status = ''todo'', createdAt = ''t1'', updatedAt = ''t1''\<rparr>,
                 \<lparr>task_id = 2, description = ''b'', status = ''in-progress'', createdAt = ''t2'', updatedAt = ''t2''\<rparr>,
                 \<lparr>task_id = 3, description = ''c'', status = ''done'', createdAt = ''t2'', updatedAt = ''t3''\<rparr>])))),
              [] @ snd (saveTasks (pre @ post) \<lparr>now = ''t9'', write_ok = True\<rparr>
                (File True (Document (json_of_tasks
                [\<lparr>task_id = 1, description = ''a'', status = ''todo'', createdAt = ''t1'', updatedAt = ''t1''\<rparr>,
                 \<lparr>task_id = 2, description = ''b'', status = ''in-progress'', createdAt = ''t2'', updatedAt = ''t2''\<rparr>,
                 \<lparr>task_id = 3, description = ''c'', status = ''done'', createdAt = ''t2'', updatedAt = ''t3''\<rparr>]))))
              @ [Deleted (Finite 2)])) \<and>
   deleteTask (Some ''2'') \<lparr>now = ''t9'', write_ok = True\<rparr>
     (File True (Document (json_of_tasks
     [\<lparr>task_id = 1, description = ''a'', status = ''todo'', createdAt = ''t1'', updatedAt = ''t1''\<rparr>,
      \<lparr>task_id = 2, description = ''b'', status = ''in-progress'', createdAt = ''t2'', updatedAt = ''t2''\<rparr>,
      \<lparr>task_id = 3, description = ''c'', status = ''done'', createdAt = ''t2'', updatedAt = ''t3''\<rparr>])))
   = Some ((File True (Document (json_of_tasks
     [\<lparr>task_id = 1, description = ''a'', status = ''todo'', createdAt = ''t1'', updatedAt = ''t1''\<rparr>,
      \<lparr>task_id = 3, description = ''c'', status = ''done'', createdAt = ''t2'', updatedAt = ''t3''\<rparr>]))),
      [Deleted (Finite 2)]) \<and>
   deleteTask (Some ''7'') \<lparr>now = ''t9'', write_ok = False\<rparr>
     (File True (Document (json_of_tasks
     [\<lparr>task_id = 1, description = ''a'', status = ''todo'', createdAt = ''t1'', updatedAt = ''t1''\<rparr>,
      \<lparr>task_id = 2, description = ''b'', status = ''in-progress'', createdAt = ''t2'', updatedAt = ''t2''\<rparr>,
      \<lparr>task_id = 3, description = ''c'', status = ''done'', createdAt = ''t2'', updatedAt = ''t3''\<rparr>])))
   = Some ((File True (Document (json_of_tasks
     [\<lparr>task_id = 1, description = ''a'', status = ''todo'', createdAt = ''t1'', updatedAt = ''t1''\<rparr>,
      \<lparr>task_id = 2, description = ''b'', status = ''in-progress'', createdAt = ''t2'', updatedAt = ''t2''\<rparr>,
      \<lparr>task_id = 3, description = ''c'', status = ''done'', createdAt = ''t2'', updatedAt = ''t3''\<rparr>]))),
      [NotFound (Finite 7)]) \<and>
   deleteTask (Some ''9007199254740993'') \<lparr>now = ''t9'', write_ok = True\<rparr>
     (File True (Document (json_of_tasks
     [\<lparr>task_id = 9007199254740992, description = ''a'', status = ''todo'', createdAt = ''t1'', updatedAt = ''t1''\<rparr>])))
   = Some (File True (Document (json_of_tasks [])), [Deleted (Finite 9007199254740992)])"
proof -
  let ?ts = "[\<lparr>task_id = 1, description = ''a'', status = ''todo'', createdAt = ''t1'', updatedAt = ''t1''\<rparr>,
      \<lparr>task_id = 2, description = ''b'', status = ''in-progress'', createdAt = ''t2'', updatedAt = ''t2''\<rparr>,
      \<lparr>task_id = 3, description = ''c'', status = ''done'', createdAt = ''t2'', updatedAt = ''t3''\<rparr>]"
  let ?tb = "\<lparr>task_id = 9007199254740992, description = ''a'', status = ''todo'', createdAt = ''t1'', updatedAt = ''t1''\<rparr>"
  let ?e = "\<lparr>now = ''t9'', write_ok = True\<rparr>"
  have l: "loadTasks (File True (Document (json_of_tasks ?ts))) = (json_of_tasks ?ts, [])"
    by (rule loadTasks_Document)
  have lb: "loadTasks (File True (Document (json_of_tasks [?tb]))) = (json_of_tasks [?tb], [])"
    by (rule loadTasks_Document)
  have p: "parseInt (ToString (Some ''2'')) = Finite 2" "parseInt (ToString (Some ''7'')) = Finite 7"
      "parseInt (ToString (Some ''9007199254740993'')) = Finite 9007199254740992"
    by code_simp+
  have d: "distinct (map task_id ?ts)" "distinct (map task_id [?tb])"
    by simp_all
  from deleteTask_removes_one [OF l p(1) d(1), where e = ?e and n = 2]
  have a: "\<exists>pre t post. ?ts = pre @ t # post \<and> task_id t = 2 \<and>
      deleteTask (Some ''2'') ?e (File True (Document (json_of_tasks ?ts)))
      = Some (fst (saveTasks (pre @ post) ?e (File True (Document (json_of_tasks ?ts)))),
              [] @ snd (saveTasks (pre @ post) ?e (File True (Document (json_of_tasks ?ts))))
              @ [Deleted (Finite 2)])"
    by simp
  have b: "deleteTask (Some ''2'') ?e (File True (Document (json_of_tasks ?ts)))
      = Some (File True (Document (json_of_tasks [\<lparr>task_id = 1, description = ''a'', status = ''todo'', createdAt = ''t1'', updatedAt = ''t1''\<rparr>, \<lparr>task_id = 3, description = ''c'', status = ''done'', createdAt = ''t2'', updatedAt = ''t3''\<rparr>])), [Deleted (Finite 2)])"
    by code_simp
  from deleteTask_removes_one [OF l p(2) d(1), where e = "\<lparr>now = ''t9'', write_ok = False\<rparr>"]
  have c: "deleteTask (Some ''7'') \<lparr>now = ''t9'', write_ok = False\<rparr> (File True (Document (json_of_tasks ?ts)))
      = Some (File True (Document (json_of_tasks ?ts)), [NotFound (Finite 7)])"
    by (simp add: image_iff)
  from deleteTask_removes_one [OF lb p(3) d(2), where e = ?e and n = 9007199254740992]
  obtain pre t post where s: "[?tb] = pre @ t # post"
    and u: "deleteTask (Some ''9007199254740993'') ?e (File True (Document (json_of_tasks [?tb])))
      = Some (fst (saveTasks (pre @ post) ?e (File True (Document (json_of_tasks [?tb])))),
              [] @ snd (saveTasks (pre @ post) ?e (File True (Document (json_of_tasks [?tb]))))
              @ [Deleted (Finite 9007199254740992)])"
    by auto
  from s have "pre = []" by (cases pre) auto
  with s have "post = []" by simp
  with u \<open>pre = []\<close>
  have e: "deleteTask (Some ''9007199254740993'') ?e (File True (Document (json_of_tasks [?tb])))
      = Some (File True (Document (json_of_tasks [])), [Deleted (Finite 9007199254740992)])"
    by (simp add: saveTasks_eq)
  from a b c e show ?thesis by simp
qed

section \<open>Adding tasks\<close>



section \<open>Identifiers over successive runs\<close>

text \<open>
  Claim C2, as amended. Starting from an empty collection (a file from which
  \<open>loadTasks\<close> returns the empty array: none, one of length zero, an unreadable or
  malformed one, or one holding \<^verbatim>\<open>[]\<close>), every sequence of fewer than \<open>2^53\<close> runs of
  the script, with any command lines, clocks and write failures, ends, and ends with a
  stored collection whose ids are pairwise distinct; and the id that the next \<^verbatim>\<open>add\<close>
  would assign is borne by no stored task. Nothing is said of ids that were deleted.
  The bound on the number of runs keeps every id below \<open>2^53\<close>, where
  \<^verbatim>\<open>maxId + 1\<close> is exact.
\<close>

theorem ids_stay_unique:
  assumes "loadTasks f0 = (json_of_tasks [], out0)"
      and "length cmds < 2 ^ 53"
  shows "\<exists>f msgs tasks out. runs cmds f0 = Some (f, msgs) \<and>
           loadTasks f = (json_of_tasks tasks, out) \<and> distinct (map task_id tasks) \<and>
           getNextId tasks \<notin> task_id ` set tasks"
proof -
  from assms(2) have n: "int (length cmds) < 2 ^ 53" by simp
  then have "0 + int (length cmds) \<le> 2 ^ 53" by simp
  from runs_kept [OF assms(1) _ _ _ this] obtain f msgs tasks out where
    r: "runs cmds f0 = Some (f, msgs)" "loadTasks f = (json_of_tasks tasks, out)"
       "distinct (map task_id tasks)" "\<forall>t\<in>set tasks. task_id t \<le> int (length cmds)"
    by auto
  from r(4) have "maxId tasks \<le> int (length cmds)"
    by (intro maxId_le) simp_all
  with n have "maxId tasks < 2 ^ 53" by simp
  then have "getNextId tasks \<notin> task_id ` set tasks"
    using getNextId_greater [of tasks] by force
  with r(1-3) show ?thesis by blast
qed

text \<open>The theorem at four runs from no file: two adds, a delete and an add.\<close>

theorem ids_stay_unique_witness:
  "\<exists>f msgs tasks out.
     runs [([''node'', ''task-cli.js'', ''add'', ''a''], \<lparr>now = ''t1'', write_ok = True\<rparr>),
         ([''node'', ''task-cli.js'', ''add'', ''b''], \<lparr>now = ''t2'', write_ok = True\<rparr>),
         ([''node'', ''task-cli.js'', ''delete'', ''2''], \<lparr>now = ''t3'', write_ok = True\<rparr>),
         ([''node'', ''task-cli.js'', ''add'', ''c''], \<lparr>now = ''t4'', write_ok = True\<rparr>)] Missing
     = Some (f, msgs) \<and>
     loadTasks f = (json_of_tasks tasks, out) \<and> distinct (map task_id tasks) \<and>
     getNextId tasks \<notin> task_id ` set tasks"
proof -
  have m: "loadTasks Missing = (json_of_tasks [], [])"
    by (simp add: loadTasks_Missing json_of_tasks_def)
  show ?thesis by (rule ids_stay_unique [OF m]) simp
qed

text \<open>
  Claim C2 as stated fails: after \<^verbatim>\<open>add a\<close>, \<^verbatim>\<open>add b\<close>, \<^verbatim>\<open>delete 2\<close>, the run of
  \<^verbatim>\<open>add c\<close> assigns the id 2 again, to a new task.
\<close>

theorem ids_reassigned_after_delete:
  "runs [([''node'', ''task-cli.js'', ''add'', ''a''], \<lparr>now = ''t1'', write_ok = True\<rparr>),
         ([''node'', ''task-cli.js'', ''add'', ''b''], \<lparr>now = ''t2'', write_ok = True\<rparr>),
         ([''node'', ''task-cli.js'', ''delete'', ''2''], \<lparr>now = ''t3'', write_ok = True\<rparr>),
         ([''node'', ''task-cli.js'', ''add'', ''c''], \<lparr>now = ''t4'', write_ok = True\<rparr>)] Missing
   = Some (File True (Document (json_of_tasks
        [\<lparr>task_id = 1, description = ''a'', status = ''todo'', createdAt = ''t1'', updatedAt = ''t1''\<rparr>,
         \<lparr>task_id = 2, description = ''c'', status = ''todo'', createdAt = ''t4'', updatedAt = ''t4''\<rparr>])),
      [Added 1, Added 2, Deleted (Finite 2), Added 2]) \<and>
   reassigns [] [Added 1, Added 2, Deleted (Finite 2), Added 2]"
  by code_simp


end
